theory Spec2Isabelle
  imports Complex_Main
begin

section \<open>Court geometry and zone classification\<close>

text \<open>
  The constants \<open>FIBA_DIMS\<close> and \<open>NBA_DIMS\<close> of \<^verbatim>\<open>app.js\<close> give the SVG
  dimensions of the two court standards. The record keeps the numeric fields; the
  paint colour, the unit factors and the NBA-only \<open>ftLineY\<close> are read by the drawing
  code only. Coordinates are JavaScript numbers, modelled as reals.
\<close>

record court_dims =
  width :: real
  height :: real
  basketX :: real
  basketY :: real
  backboardY :: real
  baselineY :: real
  keyWidth :: real
  keyHeight :: real
  keyLeftX :: real
  keyRightX :: real
  ftCircleRadius :: real
  restrictedRadius :: real
  threePointRadius :: real
  threePointLineX :: real
  threePointY :: real
  halfCourtY :: real
  logoShotStartY :: real

definition FIBA_DIMS :: court_dims where
  "FIBA_DIMS = \<lparr> width = 1500, height = 1400, basketX = 750, basketY = 315 / 2,
     backboardY = 120, baselineY = 0, keyWidth = 490, keyHeight = 580, keyLeftX = 505,
     keyRightX = 995, ftCircleRadius = 180, restrictedRadius = 125,
     threePointRadius = 675, threePointLineX = 90, threePointY = 2991 / 10,
     halfCourtY = 1400, logoShotStartY = 1100 \<rparr>"

definition NBA_DIMS :: court_dims where
  "NBA_DIMS = \<lparr> width = 500, height = 470, basketX = 250, basketY = 105 / 2,
     backboardY = 40, baselineY = 0, keyWidth = 160, keyHeight = 190, keyLeftX = 170,
     keyRightX = 330, ftCircleRadius = 60, restrictedRadius = 40,
     threePointRadius = 475 / 2, threePointLineX = 30, threePointY = 140,
     halfCourtY = 470, logoShotStartY = 380 \<rparr>"

text \<open>The result of \<open>detectZone\<close>: the object \<^verbatim>\<open>{ name, details }\<close>.\<close>

record zone =
  name :: string
  details :: string

text \<open>\<^verbatim>\<open>Math.hypot(x - basketX, y - basketY)\<close>.\<close>

definition hypot :: "real \<Rightarrow> real \<Rightarrow> real" where
  "hypot a b = sqrt (a\<^sup>2 + b\<^sup>2)"

definition isInPaint :: "court_dims \<Rightarrow> real \<Rightarrow> real \<Rightarrow> bool" where
  "isInPaint court x y \<longleftrightarrow>
     x \<ge> keyLeftX court \<and> x \<le> keyRightX court \<and> y \<ge> baselineY court \<and> y \<le> keyHeight court"

definition isCornerThree :: "court_dims \<Rightarrow> real \<Rightarrow> real \<Rightarrow> bool" where
  "isCornerThree court x y \<longleftrightarrow>
     y \<le> threePointY court \<and>
     (x < threePointLineX court \<or> x > width court - threePointLineX court)"

definition isAtFreeThrowLine :: "court_dims \<Rightarrow> real \<Rightarrow> real \<Rightarrow> bool" where
  "isAtFreeThrowLine court x y \<longleftrightarrow>
     (let ftLineY = keyHeight court
      in y > ftLineY - 20 \<and> y < ftLineY + 20 \<and> x > keyLeftX court \<and> x < keyRightX court)"

definition detectZone :: "court_dims \<Rightarrow> real \<Rightarrow> real \<Rightarrow> zone" where
  "detectZone court x y =
     (let dist = hypot (x - basketX court) (y - basketY court)
      in if isAtFreeThrowLine court x y then \<lparr> name = ''free-throw'', details = ''Free Throw Line'' \<rparr>
         else if dist \<le> restrictedRadius court then \<lparr> name = ''paint'', details = ''Restricted Area'' \<rparr>
         else if isInPaint court x y then \<lparr> name = ''paint'', details = ''In the Paint'' \<rparr>
         else if y > logoShotStartY court then \<lparr> name = ''logo-shot'', details = ''Logo Shot'' \<rparr>
         else if isCornerThree court x y then \<lparr> name = ''corner-three'', details = ''Corner 3'' \<rparr>
         else if dist > threePointRadius court then \<lparr> name = ''three-point'', details = ''Three-Point Range'' \<rparr>
         else \<lparr> name = ''mid-range'', details = ''Mid-Range'' \<rparr>)"

section \<open>The game session\<close>

text \<open>
  The class \<open>BasketballGameManagerPro\<close> holds one game (\<open>currentGame\<close>) and the
  operator's session around it. The model is the application with a game loaded
  (\<open>currentGame\<close> is not null) and the court interface created. What a method does to
  the page (display refresh, alerts), to \<open>localStorage\<close> (\<open>saveGame\<close>) and to the
  play-by-play text feed is output only and is left out, as are the wall-clock
  timestamp, the clock text and the distance text stored on an entry. The identifier
  \<^verbatim>\<open>Date.now() + '_' + Math.random()...\<close> of a new entry is an argument of the
  operation that creates it. Counters are JavaScript numbers holding integers,
  modelled as \<open>int\<close>; objects are values, so the JSON deep copy of a snapshot is the
  value itself.
\<close>

datatype team = Home | Away

datatype status = Setup | Ready | Live | Paused | Final

datatype team_stat = Fouls | Timeouts

datatype error = TypeError

text \<open>Objects of the shape \<^verbatim>\<open>{ home: ..., away: ... }\<close>, indexed by a team.\<close>

record 'a per_team =
  home :: 'a
  away :: 'a

definition of_team :: "team \<Rightarrow> 'a per_team \<Rightarrow> 'a" where
  "of_team t p = (case t of Home \<Rightarrow> home p | Away \<Rightarrow> away p)"

definition map_team :: "team \<Rightarrow> ('a \<Rightarrow> 'a) \<Rightarrow> 'a per_team \<Rightarrow> 'a per_team" where
  "map_team t f p = (case t of Home \<Rightarrow> p\<lparr>home := f (home p)\<rparr> | Away \<Rightarrow> p\<lparr>away := f (away p)\<rparr>)"

record made_attempted =
  made :: int
  attempted :: int

record playerStats =
  points :: int
  rebounds :: int
  assists :: int
  player_fouls :: int
  steals :: int
  blocks :: int
  turnovers :: int
  fieldGoals :: made_attempted
  threePointers :: made_attempted
  freeThrows :: made_attempted

record gameState =
  period :: int
  gameTime :: int
  shotClock :: int
  scores :: "int per_team"
  fouls :: "int per_team"
  timeouts :: "int per_team"

record analytics =
  totalShots :: int
  madeShots :: int
  threePointAttempts :: int
  threePointMakes :: int
  totalActions :: int

record settings =
  gameFormat :: string
  periodDuration :: int
  timeoutsPerTeam :: int
  foulLimit :: int
  shotClockEnabled :: bool
  shotClockTime :: int

record player =
  player_name :: string
  number :: int
  position :: string
  player_id :: string

record team_info =
  team_name :: string
  color :: string
  players :: "player list"

text \<open>
  The fields \<open>result\<close>, \<open>points\<close> and \<open>shotType\<close> exist on shot entries only; they
  are grouped in a record of their own, absent (\<open>None\<close>) on other entries.
\<close>

record shot_fields =
  result :: string
  shot_points :: int
  shotType :: string

record statEntry =
  entry_id :: string
  playerId :: string
  playerNumber :: int
  playerName :: string
  entry_team :: team
  action :: string
  location :: "real \<times> real"
  entry_period :: int
  entry_type :: string
  shot :: "shot_fields option"

text \<open>The action objects built by \<open>recordQuickStat\<close> and \<open>applyStatAdjustment\<close>.\<close>

record quick_action =
  quick_id :: string
  statType :: string
  quick_playerId :: string
  quick_playerName :: string
  quick_playerNumber :: int
  quick_team :: "team option"
  quick_points :: int
  quick_period :: int

record team_adjustment =
  adjust_id :: string
  adjust_team :: team
  stat :: team_stat
  oldValue :: int
  newValue :: int

datatype undo_action =
    CourtAction statEntry
  | QuickStat quick_action
  | TeamStatAdjustment team_adjustment

fun action_id :: "undo_action \<Rightarrow> string" where
  "action_id (CourtAction e) = entry_id e"
| "action_id (QuickStat q) = quick_id q"
| "action_id (TeamStatAdjustment t) = adjust_id t"

record undo_entry =
  undo_action :: undo_action
  gameStateBefore :: gameState
  statsBefore :: "string \<rightharpoonup> playerStats"
  analyticsBefore :: analytics

record game =
  status :: status
  settings :: settings
  teams :: "team_info per_team"
  gameState :: gameState
  stats :: "string \<rightharpoonup> playerStats"
  shots :: "statEntry list"
  analytics :: analytics

text \<open>
  \<open>clockInterval\<close> and \<open>shotClockInterval\<close> say whether the field holds the handle
  of a registered interval timer. \<open>setInterval\<close> registers a timer with the browser,
  and only \<open>clearInterval\<close> on its handle removes it; a timer whose handle has been
  overwritten by a later \<open>setInterval\<close> stays registered and can no longer be
  cleared. \<open>strayClockTimers\<close> and \<open>strayShotClockTimers\<close> count those timers; all
  timers of one clock run the same callback. The selection fields are those the
  operations read; the display refresh that ends an operation re-reads them from the
  page, which is outside the model.
\<close>

record app =
  currentGame :: game
  isAdmin :: bool
  clockInterval :: bool
  shotClockInterval :: bool
  selectedQuickPlayer :: "string option"
  selectedCourtPlayer :: "string option"
  selectedQuickTeam :: team
  selectedCourtTeam :: team
  undoStack :: "undo_entry list"
  strayClockTimers :: nat
  strayShotClockTimers :: nat

definition maxUndoStackSize :: nat where
  "maxUndoStackSize = 20"

subsection \<open>String operations of the action codes\<close>

text \<open>\<^verbatim>\<open>s.split(c)\<close> for a one-character separator.\<close>

fun split_on :: "char \<Rightarrow> string \<Rightarrow> string list" where
  "split_on c [] = [[]]"
| "split_on c (x # xs) =
     (if x = c then [] # split_on c xs
      else (case split_on c xs of [] \<Rightarrow> [[x]] | s # ss \<Rightarrow> (x # s) # ss))"

fun startsWith :: "string \<Rightarrow> string \<Rightarrow> bool" where
  "startsWith s [] = True"
| "startsWith [] (p # ps) = False"
| "startsWith (c # cs) (p # ps) = (c = p \<and> startsWith cs ps)"

fun includes_str :: "string \<Rightarrow> string \<Rightarrow> bool" where
  "includes_str [] sub = (sub = [])"
| "includes_str (c # cs) sub = (startsWith (c # cs) sub \<or> includes_str cs sub)"

subsection \<open>Players and selection\<close>

definition getPlayerById :: "game \<Rightarrow> string \<Rightarrow> player option" where
  "getPlayerById g pid =
     (case find (\<lambda>p. player_id p = pid) (players (home (teams g))) of
        Some p \<Rightarrow> Some p
      | None \<Rightarrow> find (\<lambda>p. player_id p = pid) (players (away (teams g))))"

definition getPlayerTeam :: "game \<Rightarrow> string \<Rightarrow> team option" where
  "getPlayerTeam g pid =
     (case find (\<lambda>p. player_id p = pid) (players (home (teams g))) of
        Some p \<Rightarrow> Some Home
      | None \<Rightarrow> (case find (\<lambda>p. player_id p = pid) (players (away (teams g))) of
                   Some p \<Rightarrow> Some Away
                 | None \<Rightarrow> None))"

datatype selector = Quick | Court

text \<open>An empty string is falsy, like null: no player is selected.\<close>

definition getSelectedPlayer :: "selector \<Rightarrow> app \<Rightarrow> player option" where
  "getSelectedPlayer type a =
     (case (case type of Court \<Rightarrow> selectedCourtPlayer a | Quick \<Rightarrow> selectedQuickPlayer a) of
        None \<Rightarrow> None
      | Some pid \<Rightarrow> if pid = [] then None else getPlayerById (currentGame a) pid)"

subsection \<open>The stat aggregator\<close>

definition upd_stats :: "string \<Rightarrow> (playerStats \<Rightarrow> playerStats) \<Rightarrow> app \<Rightarrow> app" where
  "upd_stats pid f a =
     currentGame_update (stats_update (\<lambda>m. case m pid of None \<Rightarrow> m | Some s \<Rightarrow> m(pid \<mapsto> f s))) a"

definition upd_analytics :: "(analytics \<Rightarrow> analytics) \<Rightarrow> app \<Rightarrow> app" where
  "upd_analytics f a = currentGame_update (analytics_update f) a"

definition upd_gameState :: "(gameState \<Rightarrow> gameState) \<Rightarrow> app \<Rightarrow> app" where
  "upd_gameState f a = currentGame_update (gameState_update f) a"

text \<open>
  \<open>addScore\<close>. In the quick-stat path the team comes from \<open>getPlayerTeam\<close>, which may
  be null; the score of neither team changes then.
\<close>

definition addScore :: "team option \<Rightarrow> int \<Rightarrow> app \<Rightarrow> app" where
  "addScore t pts a =
     upd_analytics (totalActions_update (\<lambda>n. n + 1))
       (case t of None \<Rightarrow> a
        | Some tm \<Rightarrow> upd_gameState (scores_update (map_team tm (\<lambda>n. n + pts))) a)"

text \<open>\<^verbatim>\<open>settings.shotClockTime || 24\<close>: zero is falsy.\<close>

definition resetShotClock :: "app \<Rightarrow> app" where
  "resetShotClock a =
     (if \<not> isAdmin a then a
      else upd_gameState (shotClock_update (\<lambda>_.
             if shotClockTime (settings (currentGame a)) = 0 then 24
             else shotClockTime (settings (currentGame a)))) a)"

text \<open>
  \<open>handleShotAction(action, stats, team)\<close>: \<open>stats\<close> is the object
  \<open>currentGame.stats[player.id]\<close>, given here by its key; reading a field of an
  absent object raises a TypeError before anything is written.
\<close>

definition handleShotAction :: "shot_fields \<Rightarrow> string \<Rightarrow> team \<Rightarrow> app \<Rightarrow> error + app" where
  "handleShotAction sh pid tm a =
     (case stats (currentGame a) pid of
        None \<Rightarrow> Inl TypeError
      | Some _ \<Rightarrow>
          let isMake = (result sh = ''make'');
              pts = shot_points sh;
              a1 =
                (if shotType sh = ''3PT'' \<or> shotType sh = ''logo'' then
                   let b1 = upd_stats pid (threePointers_update (attempted_update (\<lambda>n. n + 1))) a;
                       b2 = (if isMake then
                               addScore (Some tm) pts
                                 (upd_stats pid (points_update (\<lambda>n. n + pts))
                                    (upd_stats pid (threePointers_update (made_update (\<lambda>n. n + 1))) b1))
                             else b1);
                       b3 = upd_analytics (threePointAttempts_update (\<lambda>n. n + 1)) b2
                   in if isMake then upd_analytics (threePointMakes_update (\<lambda>n. n + 1)) b3 else b3
                 else if shotType sh = ''ft'' then
                   let b1 = upd_stats pid (freeThrows_update (attempted_update (\<lambda>n. n + 1))) a
                   in if isMake then
                        addScore (Some tm) pts
                          (upd_stats pid (points_update (\<lambda>n. n + pts))
                             (upd_stats pid (freeThrows_update (made_update (\<lambda>n. n + 1))) b1))
                      else b1
                 else
                   let b1 = upd_stats pid (fieldGoals_update (attempted_update (\<lambda>n. n + 1))) a
                   in if isMake then
                        addScore (Some tm) pts
                          (upd_stats pid (points_update (\<lambda>n. n + pts))
                             (upd_stats pid (fieldGoals_update (made_update (\<lambda>n. n + 1))) b1))
                      else b1);
              a2 = upd_analytics (totalShots_update (\<lambda>n. n + 1)) a1;
              a3 = (if isMake then upd_analytics (madeShots_update (\<lambda>n. n + 1)) a2 else a2)
          in Inr (if isMake \<and> shotClockEnabled (settings (currentGame a3))
                  then resetShotClock a3 else a3))"

definition bump_stat :: "string \<Rightarrow> (playerStats \<Rightarrow> playerStats) \<Rightarrow> app \<Rightarrow> error + app" where
  "bump_stat pid f a =
     (case stats (currentGame a) pid of None \<Rightarrow> Inl TypeError | Some _ \<Rightarrow> Inr (upd_stats pid f a))"

definition handleStatAction :: "string \<Rightarrow> string \<Rightarrow> app \<Rightarrow> error + app" where
  "handleStatAction actionType pid a =
     (if actionType = ''rebound'' then bump_stat pid (rebounds_update (\<lambda>n. n + 1)) a
      else if actionType = ''assist'' then bump_stat pid (assists_update (\<lambda>n. n + 1)) a
      else if actionType = ''block'' then bump_stat pid (blocks_update (\<lambda>n. n + 1)) a
      else Inr a)"

subsection \<open>The undo ledger\<close>

definition addToUndoStack :: "undo_action \<Rightarrow> app \<Rightarrow> app" where
  "addToUndoStack act a =
     (let pushed = undoStack a @
            [\<lparr> undo_action = act, gameStateBefore = gameState (currentGame a),
               statsBefore = stats (currentGame a), analyticsBefore = analytics (currentGame a) \<rparr>]
      in a\<lparr>undoStack := (if length pushed > maxUndoStackSize then tl pushed else pushed)\<rparr>)"

definition undoLastAction :: "app \<Rightarrow> app" where
  "undoLastAction a =
     (if \<not> isAdmin a \<or> length (undoStack a) = 0 then a
      else
        let undoData = last (undoStack a);
            a1 = a\<lparr>undoStack := butlast (undoStack a)\<rparr>
        in currentGame_update (\<lambda>g. g\<lparr> gameState := gameStateBefore undoData,
               stats := statsBefore undoData, analytics := analyticsBefore undoData,
               shots := filter (\<lambda>shot. entry_id shot \<noteq> action_id (undo_action undoData)) (shots g) \<rparr>) a1)"

subsection \<open>Recording a court action\<close>

text \<open>
  \<open>handleNewCourtAction(data)\<close> with \<open>data = { action, location }\<close>. The destructuring
  \<^verbatim>\<open>[outcome, shotType] = action.split('-')\<close> takes the first two segments; the second
  may be missing. An exception leaves the handler before the entry is stored.
\<close>

definition handleNewCourtAction :: "string \<Rightarrow> string \<Rightarrow> real \<times> real \<Rightarrow> app \<Rightarrow> error + app" where
  "handleNewCourtAction newId act loc a =
     (case getSelectedPlayer Court a of
        None \<Rightarrow> Inr a
      | Some player \<Rightarrow>
          let segments = split_on CHR ''-'' act;
              outcome = (case segments of [] \<Rightarrow> [] | s # _ \<Rightarrow> s);
              subtype = (case segments of _ # s # _ \<Rightarrow> Some s | _ \<Rightarrow> None);
              statEntry = \<lparr> entry_id = newId, playerId = player_id player,
                 playerNumber = number player, playerName = player_name player,
                 entry_team = selectedCourtTeam a, action = act, location = loc,
                 entry_period = period (gameState (currentGame a)),
                 entry_type = act, shot = None \<rparr>;
              applied =
                (if includes_str outcome ''make'' \<or> includes_str outcome ''miss'' then
                   let sh = \<lparr> result = (if startsWith outcome ''make'' then ''make'' else ''miss''),
                              shot_points = (if includes_str outcome ''3'' then 3
                                             else if includes_str outcome ''2'' then 2
                                             else if includes_str outcome ''1'' then 1 else 0),
                              shotType = (case subtype of None \<Rightarrow> ''shot''
                                          | Some s \<Rightarrow> if s = [] then ''shot'' else s) \<rparr>
                   in map_sum id (Pair (statEntry\<lparr>entry_type := ''shot'', shot := Some sh\<rparr>))
                        (handleShotAction sh (player_id player) (selectedCourtTeam a) a)
                 else map_sum id (Pair statEntry) (handleStatAction act (player_id player) a))
          in case applied of
               Inl e \<Rightarrow> Inl e
             | Inr (entry, a1) \<Rightarrow>
                 Inr (addToUndoStack (CourtAction entry)
                        (currentGame_update (shots_update (\<lambda>xs. xs @ [entry])) a1)))"

subsection \<open>Team adjustments and quick stats\<close>

text \<open>
  The foul-limit dialog of \<open>adjustTeamStat\<close> exists when SweetAlert is loaded
  (\<open>swal\<close>); \<open>confirmed\<close> is the operator's answer, applied at once.
\<close>

record dialog =
  swal :: bool
  confirmed :: bool

definition stat_of :: "team_stat \<Rightarrow> gameState \<Rightarrow> int per_team" where
  "stat_of st gs = (case st of Fouls \<Rightarrow> fouls gs | Timeouts \<Rightarrow> timeouts gs)"

definition applyStatAdjustment :: "string \<Rightarrow> team \<Rightarrow> team_stat \<Rightarrow> int \<Rightarrow> app \<Rightarrow> app" where
  "applyStatAdjustment newId tm st new a =
     (let old = of_team tm (stat_of st (gameState (currentGame a)));
          act = \<lparr> adjust_id = newId, adjust_team = tm, stat = st, oldValue = old, newValue = new \<rparr>;
          a1 = addToUndoStack (TeamStatAdjustment act) a
      in upd_gameState (case st of Fouls \<Rightarrow> fouls_update (map_team tm (\<lambda>_. new))
                                 | Timeouts \<Rightarrow> timeouts_update (map_team tm (\<lambda>_. new))) a1)"

definition adjustTeamStat :: "dialog \<Rightarrow> string \<Rightarrow> team \<Rightarrow> team_stat \<Rightarrow> int \<Rightarrow> app \<Rightarrow> app" where
  "adjustTeamStat ui newId tm st adjustment a =
     (if \<not> isAdmin a then a
      else
        let currentValue = of_team tm (stat_of st (gameState (currentGame a)));
            new = max 0 (currentValue + adjustment)
        in if swal ui \<and> st = Fouls \<and> new > foulLimit (settings (currentGame a)) \<and> adjustment > 0
           then (if confirmed ui then applyStatAdjustment newId tm st new a else a)
           else if swal ui \<and> st = Timeouts \<and> new < 0 then a
           else applyStatAdjustment newId tm st new a)"

definition recordQuickStat :: "dialog \<Rightarrow> string \<Rightarrow> string \<Rightarrow> int \<Rightarrow> app \<Rightarrow> app" where
  "recordQuickStat ui newId stype pts a =
     (if \<not> isAdmin a then a
      else if getSelectedPlayer Quick a = None \<and> \<not> includes_str stype ''timeout'' then a
      else if includes_str stype ''foul'' \<or> includes_str stype ''timeout'' then
        adjustTeamStat ui newId (selectedQuickTeam a)
          (if includes_str stype ''foul'' then Fouls else Timeouts)
          (if includes_str stype ''+'' then 1 else - 1) a
      else
        (case getSelectedPlayer Quick a of
           None \<Rightarrow> a
         | Some selectedPlayer \<Rightarrow>
             let pid = player_id selectedPlayer
             in (case stats (currentGame a) pid of
                   None \<Rightarrow> a
                 | Some _ \<Rightarrow>
                     let act = \<lparr> quick_id = newId, statType = stype, quick_playerId = pid,
                                 quick_playerName = player_name selectedPlayer,
                                 quick_playerNumber = number selectedPlayer,
                                 quick_team = getPlayerTeam (currentGame a) pid,
                                 quick_points = pts,
                                 quick_period = period (gameState (currentGame a)) \<rparr>;
                         a1 = addToUndoStack (QuickStat act) a;
                         tm = getPlayerTeam (currentGame a1) pid;
                         a2 =
                           (if stype = ''ft'' then
                              addScore tm pts
                                (upd_stats pid (points_update (\<lambda>n. n + pts))
                                   (upd_stats pid (freeThrows_update (attempted_update (\<lambda>n. n + 1)))
                                      (upd_stats pid (freeThrows_update (made_update (\<lambda>n. n + 1))) a1)))
                            else if stype = ''fg2'' then
                              let b = upd_analytics (madeShots_update (\<lambda>n. n + 1))
                                        (upd_analytics (totalShots_update (\<lambda>n. n + 1))
                                           (addScore tm pts
                                              (upd_stats pid (points_update (\<lambda>n. n + pts))
                                                 (upd_stats pid (fieldGoals_update (attempted_update (\<lambda>n. n + 1)))
                                                    (upd_stats pid (fieldGoals_update (made_update (\<lambda>n. n + 1))) a1)))))
                              in if shotClockEnabled (settings (currentGame b)) then resetShotClock b else b
                            else if stype = ''fg3'' then
                              let b = upd_analytics (threePointMakes_update (\<lambda>n. n + 1))
                                        (upd_analytics (threePointAttempts_update (\<lambda>n. n + 1))
                                           (upd_analytics (madeShots_update (\<lambda>n. n + 1))
                                              (upd_analytics (totalShots_update (\<lambda>n. n + 1))
                                                 (addScore tm pts
                                                    (upd_stats pid (points_update (\<lambda>n. n + pts))
                                                       (upd_stats pid (threePointers_update (attempted_update (\<lambda>n. n + 1)))
                                                          (upd_stats pid (threePointers_update (made_update (\<lambda>n. n + 1))) a1)))))))
                              in if shotClockEnabled (settings (currentGame b)) then resetShotClock b else b
                            else if stype = ''rebound'' then upd_stats pid (rebounds_update (\<lambda>n. n + 1)) a1
                            else if stype = ''assist'' then upd_stats pid (assists_update (\<lambda>n. n + 1)) a1
                            else if stype = ''block'' then upd_stats pid (blocks_update (\<lambda>n. n + 1)) a1
                            else if stype = ''steal'' then upd_stats pid (steals_update (\<lambda>n. n + 1)) a1
                            else if stype = ''turnover'' then upd_stats pid (turnovers_update (\<lambda>n. n + 1)) a1
                            else a1)
                     in upd_analytics (totalActions_update (\<lambda>n. n + 1)) a2)))"

subsection \<open>The clocks\<close>

text \<open>
  \<open>clearIntervals\<close> clears the timer held in each handle, if any, and sets the handle
  to null; timers without a handle are out of its reach.
\<close>

definition clearIntervals :: "app \<Rightarrow> app" where
  "clearIntervals a = a\<lparr>clockInterval := False, shotClockInterval := False\<rparr>"

definition set_status :: "status \<Rightarrow> app \<Rightarrow> app" where
  "set_status s a = currentGame_update (status_update (\<lambda>_. s)) a"

definition endGame :: "app \<Rightarrow> app" where
  "endGame a = set_status Final (clearIntervals a)"

definition handlePeriodEnd :: "app \<Rightarrow> app" where
  "handlePeriodEnd a =
     (let a1 = set_status Paused (clearIntervals a);
          maxPeriods = (if gameFormat (settings (currentGame a1)) = ''quarters'' then 4 else 2)
      in if period (gameState (currentGame a1)) < maxPeriods then
           upd_gameState (gameTime_update (\<lambda>_. periodDuration (settings (currentGame a1)) * 60))
             (upd_gameState (period_update (\<lambda>n. n + 1)) a1)
         else if home (scores (gameState (currentGame a1))) = away (scores (gameState (currentGame a1))) then
           upd_gameState (gameTime_update (\<lambda>_. 300))
             (upd_gameState (period_update (\<lambda>n. n + 1)) a1)
         else endGame a1)"

text \<open>
  The two callbacks that \<open>resumeGame\<close> registers with \<open>setInterval(..., 1000)\<close>. The
  game-clock callback also reports whether it called \<open>handlePeriodEnd\<close>.
\<close>

definition gameClockCallback :: "app \<Rightarrow> app \<times> bool" where
  "gameClockCallback a =
     (if gameTime (gameState (currentGame a)) > 0 then
        let a1 = upd_gameState (gameTime_update (\<lambda>n. n - 1)) a
        in if gameTime (gameState (currentGame a1)) = 0 then (handlePeriodEnd a1, True)
           else (a1, False)
      else (a, False))"

definition shotClockCallback :: "app \<Rightarrow> app" where
  "shotClockCallback a =
     (if shotClock (gameState (currentGame a)) > 0
      then upd_gameState (shotClock_update (\<lambda>n. n - 1)) a else a)"

text \<open>
  \<open>resumeGame\<close> assigns a new timer to \<open>clockInterval\<close> and, when the shot clock is
  enabled, to \<open>shotClockInterval\<close>, without clearing what the field held: a timer
  held before stays registered with no handle.
\<close>

definition resumeGame :: "app \<Rightarrow> app" where
  "resumeGame a =
     (let a1 = (set_status Live a)
                 \<lparr> strayClockTimers := (if clockInterval a then strayClockTimers a + 1
                                          else strayClockTimers a),
                   clockInterval := True \<rparr>
      in if shotClockEnabled (settings (currentGame a1))
         then a1\<lparr> strayShotClockTimers := (if shotClockInterval a1 then strayShotClockTimers a1 + 1
                                             else strayShotClockTimers a1),
                  shotClockInterval := True \<rparr>
         else a1)"

definition pauseGame :: "app \<Rightarrow> app" where
  "pauseGame a = clearIntervals (set_status Paused a)"

definition toggleGameClock :: "app \<Rightarrow> app" where
  "toggleGameClock a =
     (if \<not> isAdmin a then a
      else if status (currentGame a) = Live then pauseGame a else resumeGame a)"

text \<open>
  The timers. Each registered timer runs its callback once a second, at its own
  phase, so the callbacks of the two clocks come due in any order. A schedule is the
  list of the clocks whose timer comes due, in that order; a callback runs when a timer
  of that clock is registered, held in its handle or stray. \<open>fire\<close> is one such
  callback and reports whether \<open>handlePeriodEnd\<close> was called; \<open>run\<close> goes through a
  schedule and counts those calls.
\<close>

datatype timer = GameClock | ShotClock

definition registered :: "timer \<Rightarrow> app \<Rightarrow> bool" where
  "registered t a =
     (case t of GameClock \<Rightarrow> clockInterval a \<or> 0 < strayClockTimers a
              | ShotClock \<Rightarrow> shotClockInterval a \<or> 0 < strayShotClockTimers a)"

definition fire :: "timer \<Rightarrow> app \<Rightarrow> app \<times> bool" where
  "fire t a =
     (if registered t a
      then (case t of GameClock \<Rightarrow> gameClockCallback a | ShotClock \<Rightarrow> (shotClockCallback a, False))
      else (a, False))"

fun run :: "timer list \<Rightarrow> app \<Rightarrow> app \<times> nat" where
  "run [] a = (a, 0)"
| "run (t # ts) a =
     (let (a1, ended) = fire t a; (a2, k) = run ts a1
      in (a2, (if ended then 1 else 0) + k))"

subsection \<open>Creating a game\<close>

text \<open>
  The session after \<open>createNewGame\<close> (with a password entered) on a new
  \<open>BasketballGameManagerPro\<close>: the game object of \<open>createNewGame\<close> and the fields set
  by the constructor.
\<close>

definition createNewGame :: app where
  "createNewGame =
     \<lparr> currentGame =
         \<lparr> status = Setup,
           settings = \<lparr> gameFormat = ''quarters'', periodDuration = 12, timeoutsPerTeam = 7,
                        foulLimit = 7, shotClockEnabled = True, shotClockTime = 24 \<rparr>,
           teams = \<lparr> home = \<lparr> team_name = ''Home Team'', color = ''bg-1'', players = [] \<rparr>,
                     away = \<lparr> team_name = ''Away Team'', color = ''bg-4'', players = [] \<rparr> \<rparr>,
           gameState = \<lparr> period = 1, gameTime = 720, shotClock = 24,
                         scores = \<lparr> home = 0, away = 0 \<rparr>, fouls = \<lparr> home = 0, away = 0 \<rparr>,
                         timeouts = \<lparr> home = 7, away = 7 \<rparr> \<rparr>,
           stats = Map.empty, shots = [],
           analytics = \<lparr> totalShots = 0, madeShots = 0, threePointAttempts = 0,
                         threePointMakes = 0, totalActions = 0 \<rparr> \<rparr>,
       isAdmin = True, clockInterval = False, shotClockInterval = False,
       selectedQuickPlayer = None, selectedCourtPlayer = None,
       selectedQuickTeam = Home, selectedCourtTeam = Home, undoStack = [],
       strayClockTimers = 0, strayShotClockTimers = 0 \<rparr>"

text \<open>
  \<open>addPlayer(team)\<close> with the form's name, parsed jersey number and position. The
  player id is \<^verbatim>\<open>`${team}_${number}`\<close>; a number passes validation only within 0..99.
\<close>

definition team_text :: "team \<Rightarrow> string" where
  "team_text t = (case t of Home \<Rightarrow> ''home'' | Away \<Rightarrow> ''away'')"

definition digit :: "nat \<Rightarrow> char" where
  "digit d = ''0123456789'' ! d"

definition jersey_text :: "int \<Rightarrow> string" where
  "jersey_text n = (if n < 10 then [digit (nat n)] else [digit (nat n div 10), digit (nat n mod 10)])"

definition zeroStats :: playerStats where
  "zeroStats = \<lparr> points = 0, rebounds = 0, assists = 0, player_fouls = 0, steals = 0, blocks = 0,
     turnovers = 0, fieldGoals = \<lparr> made = 0, attempted = 0 \<rparr>,
     threePointers = \<lparr> made = 0, attempted = 0 \<rparr>, freeThrows = \<lparr> made = 0, attempted = 0 \<rparr> \<rparr>"

definition addPlayer :: "team \<Rightarrow> string \<Rightarrow> int \<Rightarrow> string \<Rightarrow> app \<Rightarrow> app" where
  "addPlayer tm nm num pos a =
     (if nm = [] then a
      else if num < 0 \<or> num > 99 then a
      else if find (\<lambda>p. number p = num) (players (of_team tm (teams (currentGame a)))) \<noteq> None then a
      else
        let pl = \<lparr> player_name = nm, number = num, position = (if pos = [] then ''N/A'' else pos),
                   player_id = team_text tm @ ''_'' @ jersey_text num \<rparr>
        in currentGame_update (\<lambda>g. g\<lparr> teams := map_team tm (players_update (\<lambda>ps. ps @ [pl])) (teams g),
                                        stats := (stats g)(player_id pl \<mapsto> zeroStats) \<rparr>) a)"

definition startGame :: "app \<Rightarrow> app" where
  "startGame a = set_status Ready a"

text \<open>The change handlers of the two player drop-downs.\<close>

definition selectCourtPlayer :: "string \<Rightarrow> app \<Rightarrow> app" where
  "selectCourtPlayer v a = a\<lparr>selectedCourtPlayer := Some v\<rparr>"

definition selectQuickPlayer :: "string \<Rightarrow> app \<Rightarrow> app" where
  "selectQuickPlayer v a = a\<lparr>selectedQuickPlayer := Some v\<rparr>"

text \<open>
  A game for the concrete checks below: created, player A (number 7) added to the
  home team and player B (number 9) to the away team, started, and player A chosen
  in both drop-downs.
\<close>

definition exampleGame :: app where
  "exampleGame =
     selectQuickPlayer ''home_7'' (selectCourtPlayer ''home_7''
       (startGame (addPlayer Away ''B'' 9 ''C'' (addPlayer Home ''A'' 7 ''G'' createNewGame))))"



section \<open>Properties of the zone classifier\<close>

lemma hypot_zero_left: "hypot 0 b = \<bar>b\<bar>"
  by (simp add: hypot_def)

lemma hypot_ge_abs_right: "\<bar>b\<bar> \<le> hypot a b"
proof -
  have "sqrt (b\<^sup>2) \<le> sqrt (a\<^sup>2 + b\<^sup>2)"
    by (rule real_sqrt_le_mono) simp
  then show ?thesis by (simp add: hypot_def)
qed

text \<open>
  Claim C8. A point whose y-coordinate exceeds the logo-shot threshold and which is
  outside the free-throw band, the restricted area and the paint box is classified
  as \<open>logo-shot\<close>, whatever its distance from the basket; on both court standards
  this covers every point on the centre line (\<open>x = basketX\<close>, half the width) beyond
  the threshold.
\<close>

theorem detectZone_logo_shot:
  "(y > logoShotStartY court \<and> \<not> isAtFreeThrowLine court x y
      \<and> \<not> hypot (x - basketX court) (y - basketY court) \<le> restrictedRadius court
      \<and> \<not> isInPaint court x y
    \<longrightarrow> detectZone court x y = \<lparr> name = ''logo-shot'', details = ''Logo Shot'' \<rparr>)
   \<and> (y' > logoShotStartY FIBA_DIMS
    \<longrightarrow> basketX FIBA_DIMS = width FIBA_DIMS / 2
      \<and> detectZone FIBA_DIMS (basketX FIBA_DIMS) y' = \<lparr> name = ''logo-shot'', details = ''Logo Shot'' \<rparr>
      \<and> hypot (basketX FIBA_DIMS - basketX FIBA_DIMS) (y' - basketY FIBA_DIMS) > threePointRadius FIBA_DIMS)
   \<and> (y'' > logoShotStartY NBA_DIMS
    \<longrightarrow> basketX NBA_DIMS = width NBA_DIMS / 2
      \<and> detectZone NBA_DIMS (basketX NBA_DIMS) y'' = \<lparr> name = ''logo-shot'', details = ''Logo Shot'' \<rparr>
      \<and> hypot (basketX NBA_DIMS - basketX NBA_DIMS) (y'' - basketY NBA_DIMS) > threePointRadius NBA_DIMS)"
proof (intro conjI impI)
  assume "y > logoShotStartY court \<and> \<not> isAtFreeThrowLine court x y
      \<and> \<not> hypot (x - basketX court) (y - basketY court) \<le> restrictedRadius court
      \<and> \<not> isInPaint court x y"
  then show "detectZone court x y = \<lparr> name = ''logo-shot'', details = ''Logo Shot'' \<rparr>"
    by (simp add: detectZone_def Let_def)
next
  assume "y' > logoShotStartY FIBA_DIMS"
  then have y: "y' > 1100" by (simp add: FIBA_DIMS_def)
  show "basketX FIBA_DIMS = width FIBA_DIMS / 2" by (simp add: FIBA_DIMS_def)
  from y show "detectZone FIBA_DIMS (basketX FIBA_DIMS) y' = \<lparr> name = ''logo-shot'', details = ''Logo Shot'' \<rparr>"
    by (simp add: detectZone_def Let_def hypot_zero_left isAtFreeThrowLine_def isInPaint_def FIBA_DIMS_def)
  from y show "hypot (basketX FIBA_DIMS - basketX FIBA_DIMS) (y' - basketY FIBA_DIMS) > threePointRadius FIBA_DIMS"
    by (simp add: hypot_zero_left FIBA_DIMS_def)
next
  assume "y'' > logoShotStartY NBA_DIMS"
  then have y: "y'' > 380" by (simp add: NBA_DIMS_def)
  show "basketX NBA_DIMS = width NBA_DIMS / 2" by (simp add: NBA_DIMS_def)
  from y show "detectZone NBA_DIMS (basketX NBA_DIMS) y'' = \<lparr> name = ''logo-shot'', details = ''Logo Shot'' \<rparr>"
    by (simp add: detectZone_def Let_def hypot_zero_left isAtFreeThrowLine_def isInPaint_def NBA_DIMS_def)
  from y show "hypot (basketX NBA_DIMS - basketX NBA_DIMS) (y'' - basketY NBA_DIMS) > threePointRadius NBA_DIMS"
    by (simp add: hypot_zero_left NBA_DIMS_def)
qed

theorem detectZone_logo_shot_witness:
  "1200 > logoShotStartY FIBA_DIMS \<and> \<not> isAtFreeThrowLine FIBA_DIMS 100 1200
     \<and> \<not> hypot (100 - basketX FIBA_DIMS) (1200 - basketY FIBA_DIMS) \<le> restrictedRadius FIBA_DIMS
     \<and> \<not> isInPaint FIBA_DIMS 100 1200
     \<and> detectZone FIBA_DIMS 100 1200 = \<lparr> name = ''logo-shot'', details = ''Logo Shot'' \<rparr>
     \<and> detectZone FIBA_DIMS 750 1200 = \<lparr> name = ''logo-shot'', details = ''Logo Shot'' \<rparr>
     \<and> hypot (750 - 750) (1200 - 315 / 2) > 675
     \<and> detectZone NBA_DIMS 250 400 = \<lparr> name = ''logo-shot'', details = ''Logo Shot'' \<rparr>
     \<and> hypot (250 - 250) (400 - 105 / 2) > 475 / 2"
proof -
  have far: "\<not> hypot (100 - basketX FIBA_DIMS) (1200 - basketY FIBA_DIMS) \<le> restrictedRadius FIBA_DIMS"
    using hypot_ge_abs_right [of "1200 - basketY FIBA_DIMS" "100 - basketX FIBA_DIMS"]
    by (simp add: FIBA_DIMS_def)
  have band: "\<not> isAtFreeThrowLine FIBA_DIMS 100 1200"
    by (simp add: isAtFreeThrowLine_def FIBA_DIMS_def)
  have box: "\<not> isInPaint FIBA_DIMS 100 1200"
    by (simp add: isInPaint_def FIBA_DIMS_def)
  have beyond: "(1200::real) > logoShotStartY FIBA_DIMS" "(1200::real) > logoShotStartY FIBA_DIMS"
    "(400::real) > logoShotStartY NBA_DIMS"
    by (simp_all add: FIBA_DIMS_def NBA_DIMS_def)
  have fiba: "basketX FIBA_DIMS = 750" "basketY FIBA_DIMS = 315 / 2" "threePointRadius FIBA_DIMS = 675"
    by (simp_all add: FIBA_DIMS_def)
  have nba: "basketX NBA_DIMS = 250" "basketY NBA_DIMS = 105 / 2" "threePointRadius NBA_DIMS = 475 / 2"
    by (simp_all add: NBA_DIMS_def)
  show ?thesis
    using detectZone_logo_shot [where y = 1200 and court = FIBA_DIMS and x = 100
        and y' = 1200 and y'' = 400] far band box beyond
    unfolding fiba nba by blast
qed

section \<open>The example game\<close>

lemma jersey_text_examples: "jersey_text 7 = ''7''" "jersey_text 9 = ''9''"
  by (simp_all add: jersey_text_def digit_def)

lemma exampleGame_eq:
  "exampleGame =
     \<lparr> currentGame =
         \<lparr> status = Ready,
           settings = \<lparr> gameFormat = ''quarters'', periodDuration = 12, timeoutsPerTeam = 7,
                        foulLimit = 7, shotClockEnabled = True, shotClockTime = 24 \<rparr>,
           teams = \<lparr> home = \<lparr> team_name = ''Home Team'', color = ''bg-1'',
                       players = [\<lparr> player_name = ''A'', number = 7, position = ''G'', player_id = ''home_7'' \<rparr>] \<rparr>,
                     away = \<lparr> team_name = ''Away Team'', color = ''bg-4'',
                       players = [\<lparr> player_name = ''B'', number = 9, position = ''C'', player_id = ''away_9'' \<rparr>] \<rparr> \<rparr>,
           gameState = \<lparr> period = 1, gameTime = 720, shotClock = 24,
                         scores = \<lparr> home = 0, away = 0 \<rparr>, fouls = \<lparr> home = 0, away = 0 \<rparr>,
                         timeouts = \<lparr> home = 7, away = 7 \<rparr> \<rparr>,
           stats = [''home_7'' \<mapsto> zeroStats, ''away_9'' \<mapsto> zeroStats], shots = [],
           analytics = \<lparr> totalShots = 0, madeShots = 0, threePointAttempts = 0,
                         threePointMakes = 0, totalActions = 0 \<rparr> \<rparr>,
       isAdmin = True, clockInterval = False, shotClockInterval = False,
       selectedQuickPlayer = Some ''home_7'', selectedCourtPlayer = Some ''home_7'',
       selectedQuickTeam = Home, selectedCourtTeam = Home, undoStack = [],
       strayClockTimers = 0, strayShotClockTimers = 0 \<rparr>"
  by (simp add: exampleGame_def selectQuickPlayer_def selectCourtPlayer_def startGame_def set_status_def
      addPlayer_def createNewGame_def of_team_def map_team_def team_text_def jersey_text_examples Let_def)

lemma exampleGame_selected:
  "getSelectedPlayer Court exampleGame = Some \<lparr> player_name = ''A'', number = 7, position = ''G'', player_id = ''home_7'' \<rparr>"
  "getSelectedPlayer Quick exampleGame = Some \<lparr> player_name = ''A'', number = 7, position = ''G'', player_id = ''home_7'' \<rparr>"
  by (simp_all add: exampleGame_eq getSelectedPlayer_def getPlayerById_def)

lemmas aggregator_defs = handleShotAction_def handleStatAction_def bump_stat_def addScore_def
  resetShotClock_def upd_stats_def upd_analytics_def upd_gameState_def map_team_def of_team_def
  addToUndoStack_def maxUndoStackSize_def

lemma split_on_nonempty: "split_on c s \<noteq> []"
  by (induction s) (auto split: list.splits)

section \<open>Properties of the stat aggregator\<close>

text \<open>
  Claim C1. Recording the court action \<open>make3-corner\<close> for player A of the home
  team, with the shot clock run down to 10: the home score becomes 3, player A has 3
  points, \<open>totalShots\<close> and \<open>madeShots\<close> are 1 and the shot clock is back at 24.
  The subtype \<open>corner\<close> is neither \<open>3PT\<close> nor \<open>logo\<close>, so the attempt is booked
  under \<open>fieldGoals\<close>: \<open>threePointers\<close> stays at 0/0 and the analytics counters
  \<open>threePointAttempts\<close> and \<open>threePointMakes\<close> stay at 0.
\<close>

theorem handleNewCourtAction_make3_corner:
  "map_sum id (\<lambda>a'. (scores (gameState (currentGame a')), stats (currentGame a') ''home_7'',
                      analytics (currentGame a'), shotClock (gameState (currentGame a'))))
     (handleNewCourtAction ''e1'' ''make3-corner'' (60, 100)
        (upd_gameState (shotClock_update (\<lambda>_. 10)) exampleGame))
   = Inr (\<lparr> home = 3, away = 0 \<rparr>,
          Some (zeroStats\<lparr> points := 3, fieldGoals := \<lparr> made = 1, attempted = 1 \<rparr>,
                           threePointers := \<lparr> made = 0, attempted = 0 \<rparr> \<rparr>),
          \<lparr> totalShots = 1, madeShots = 1, threePointAttempts = 0, threePointMakes = 0,
            totalActions = 1 \<rparr>,
          24)"
  by (simp add: handleNewCourtAction_def getSelectedPlayer_def getPlayerById_def exampleGame_eq
      aggregator_defs Let_def zeroStats_def)

text \<open>
  The menu code of the three-point and corner-three zones is \<open>make3\<close>, without a
  subtype; it becomes \<open>shot\<close> and is booked in the same way. Only \<open>make3-logo\<close>
  reaches the three-point counters.
\<close>

lemma handleNewCourtAction_make3_menu_codes:
  "map_sum id (\<lambda>a'. (map_option threePointers (stats (currentGame a') ''home_7''),
                      map_option fieldGoals (stats (currentGame a') ''home_7''),
                      threePointAttempts (analytics (currentGame a'))))
     (handleNewCourtAction ''e1'' ''make3'' (60, 100) exampleGame)
   = Inr (Some \<lparr> made = 0, attempted = 0 \<rparr>, Some \<lparr> made = 1, attempted = 1 \<rparr>, 0)
   \<and> map_sum id (\<lambda>a'. (map_option threePointers (stats (currentGame a') ''home_7''),
                      map_option fieldGoals (stats (currentGame a') ''home_7''),
                      threePointAttempts (analytics (currentGame a'))))
     (handleNewCourtAction ''e1'' ''make3-logo'' (750, 1200) exampleGame)
   = Inr (Some \<lparr> made = 1, attempted = 1 \<rparr>, Some \<lparr> made = 0, attempted = 0 \<rparr>, 1)"
  by (simp add: handleNewCourtAction_def getSelectedPlayer_def getPlayerById_def exampleGame_eq
      aggregator_defs Let_def zeroStats_def)

text \<open>
  Claim C3. One quick free throw (\<open>recordQuickStat('ft', 1)\<close>) on the example
  game: the free throw is made and scored, yet \<open>totalShots\<close> and \<open>madeShots\<close> stay
  at 0, so they no longer equal the number of shots applied. The same free throw
  recorded on the court (\<open>make1-ft\<close>) brings both to 1.
\<close>

theorem quick_free_throw_not_counted:
  "(let b = recordQuickStat \<lparr> swal = True, confirmed = True \<rparr> ''q1'' ''ft'' 1 exampleGame
    in (map_option freeThrows (stats (currentGame b) ''home_7''), scores (gameState (currentGame b)),
        totalShots (analytics (currentGame b)), madeShots (analytics (currentGame b))))
   = (Some \<lparr> made = 1, attempted = 1 \<rparr>, \<lparr> home = 1, away = 0 \<rparr>, 0, 0)
   \<and> map_sum id (\<lambda>a'. (map_option freeThrows (stats (currentGame a') ''home_7''),
                        scores (gameState (currentGame a')),
                        totalShots (analytics (currentGame a')), madeShots (analytics (currentGame a'))))
        (handleNewCourtAction ''e1'' ''make1-ft'' (750, 580) exampleGame)
     = Inr (Some \<lparr> made = 1, attempted = 1 \<rparr>, \<lparr> home = 1, away = 0 \<rparr>, 1, 1)"
  by (simp add: recordQuickStat_def handleNewCourtAction_def getSelectedPlayer_def getPlayerById_def
      getPlayerTeam_def exampleGame_eq aggregator_defs Let_def zeroStats_def)

text \<open>
  Claim C4. The change of \<open>totalActions\<close>, starting from 0, by one action: a missed
  court shot and a court rebound leave it at 0, a made court shot brings it to 1, a
  quick two-pointer to 2 (once in \<open>addScore\<close>, once at the end of
  \<open>recordQuickStat\<close>), a quick rebound to 1.
\<close>

theorem totalActions_per_action:
  "map_sum id (\<lambda>a'. totalActions (analytics (currentGame a')))
     (handleNewCourtAction ''e1'' ''miss2-layup'' (750, 300) exampleGame) = Inr 0
   \<and> map_sum id (\<lambda>a'. totalActions (analytics (currentGame a')))
     (handleNewCourtAction ''e1'' ''rebound'' (750, 300) exampleGame) = Inr 0
   \<and> map_sum id (\<lambda>a'. totalActions (analytics (currentGame a')))
     (handleNewCourtAction ''e1'' ''make2-layup'' (750, 300) exampleGame) = Inr 1
   \<and> totalActions (analytics (currentGame
        (recordQuickStat \<lparr> swal = True, confirmed = True \<rparr> ''q1'' ''fg2'' 2 exampleGame))) = 2
   \<and> totalActions (analytics (currentGame
        (recordQuickStat \<lparr> swal = True, confirmed = True \<rparr> ''q1'' ''rebound'' 0 exampleGame))) = 1
   \<and> totalActions (analytics (currentGame exampleGame)) = 0"
  by (simp add: recordQuickStat_def handleNewCourtAction_def getSelectedPlayer_def getPlayerById_def
      getPlayerTeam_def exampleGame_eq aggregator_defs Let_def zeroStats_def)

text \<open>
  What one recorded action does to the analytics counters, for any session. On the
  court, a shot code adds one to \<open>totalShots\<close>, and a make adds one to \<open>madeShots\<close>
  and to \<open>totalActions\<close>; any other code changes no counter. A quick stat adds to
  \<open>totalShots\<close> and \<open>madeShots\<close> for \<open>fg2\<close> and \<open>fg3\<close> only, and to
  \<open>totalActions\<close> two for \<open>ft\<close>, \<open>fg2\<close> and \<open>fg3\<close> and one otherwise.
\<close>

lemma handleShotAction_counts:
  assumes "handleShotAction sh pid tm a = Inr a'"
  shows "totalShots (analytics (currentGame a')) = totalShots (analytics (currentGame a)) + 1
    \<and> madeShots (analytics (currentGame a')) =
           madeShots (analytics (currentGame a)) + (if result sh = ''make'' then 1 else 0)
    \<and> totalActions (analytics (currentGame a')) =
           totalActions (analytics (currentGame a)) + (if result sh = ''make'' then 1 else 0)"
  using assms
  by (auto simp: handleShotAction_def addScore_def resetShotClock_def upd_stats_def upd_analytics_def
      upd_gameState_def Let_def split: option.splits if_splits)

lemma handleStatAction_analytics:
  "handleStatAction act pid a = Inr a' \<Longrightarrow> analytics (currentGame a') = analytics (currentGame a)"
  by (auto simp: handleStatAction_def bump_stat_def upd_stats_def split: option.splits if_splits)

lemma case_map_sum_Pair:
  "(case map_sum id (Pair e) x of Inl err \<Rightarrow> Inl err | Inr (entry, a1) \<Rightarrow> Inr (f entry a1))
     = (case x of Inl err \<Rightarrow> Inl err | Inr a1 \<Rightarrow> Inr (f e a1))"
  by (cases x) auto

lemma analytics_stored:
  "analytics (currentGame (addToUndoStack u (currentGame_update (shots_update f) b))) = analytics (currentGame b)"
  by (simp add: addToUndoStack_def Let_def)

lemma court_step_analytics:
  assumes "getSelectedPlayer Court a = Some p"
    and "handleNewCourtAction newId act loc a = Inr a'"
    and "outcome = hd (split_on CHR ''-'' act)"
  shows "totalShots (analytics (currentGame a')) = totalShots (analytics (currentGame a))
            + (if includes_str outcome ''make'' \<or> includes_str outcome ''miss'' then 1 else 0)
     \<and> madeShots (analytics (currentGame a')) = madeShots (analytics (currentGame a))
            + (if (includes_str outcome ''make'' \<or> includes_str outcome ''miss'') \<and> startsWith outcome ''make''
               then 1 else 0)
     \<and> totalActions (analytics (currentGame a')) = totalActions (analytics (currentGame a))
            + (if (includes_str outcome ''make'' \<or> includes_str outcome ''miss'') \<and> startsWith outcome ''make''
               then 1 else 0)"
proof -
  have seg: "(case split_on CHR ''-'' act of [] \<Rightarrow> [] | s # _ \<Rightarrow> s) = outcome"
    using assms(3) split_on_nonempty [of "CHR ''-''" act] by (cases "split_on CHR ''-'' act") simp_all
  define subtype where "subtype = (case split_on CHR ''-'' act of _ # s # _ \<Rightarrow> Some s | _ \<Rightarrow> None)"
  define sh where "sh = \<lparr> result = (if startsWith outcome ''make'' then ''make'' else ''miss''),
      shot_points = (if includes_str outcome ''3'' then 3 else if includes_str outcome ''2'' then 2
                     else if includes_str outcome ''1'' then 1 else 0),
      shotType = (case subtype of None \<Rightarrow> ''shot'' | Some s \<Rightarrow> if s = [] then ''shot'' else s) \<rparr>"
  define entry where "entry = \<lparr> entry_id = newId, playerId = player_id p, playerNumber = number p,
      playerName = player_name p, entry_team = selectedCourtTeam a, action = act, location = loc,
      entry_period = period (gameState (currentGame a)), entry_type = act, shot = None \<rparr>"
  show ?thesis
  proof (cases "includes_str outcome ''make'' \<or> includes_str outcome ''miss''")
    case True
    have "handleNewCourtAction newId act loc a =
        (case handleShotAction sh (player_id p) (selectedCourtTeam a) a of
           Inl e \<Rightarrow> Inl e
         | Inr b \<Rightarrow> Inr (addToUndoStack (CourtAction (entry\<lparr>entry_type := ''shot'', shot := Some sh\<rparr>))
                     (currentGame_update (shots_update (\<lambda>xs. xs @ [entry\<lparr>entry_type := ''shot'', shot := Some sh\<rparr>])) b)))"
      using assms(1) True
      unfolding sh_def entry_def subtype_def
      by (simp add: handleNewCourtAction_def Let_def seg case_map_sum_Pair
          cong: if_cong sum.case_cong)
    with assms(2) obtain b where b: "handleShotAction sh (player_id p) (selectedCourtTeam a) a = Inr b"
      and a': "analytics (currentGame a') = analytics (currentGame b)"
      by (auto simp: analytics_stored split: sum.splits)
    have "result sh = (if startsWith outcome ''make'' then ''make'' else ''miss'')"
      by (simp add: sh_def)
    then show ?thesis
      using True handleShotAction_counts [OF b] by (simp add: a')
  next
    case False
    have "handleNewCourtAction newId act loc a =
        (case handleStatAction act (player_id p) a of
           Inl e \<Rightarrow> Inl e
         | Inr b \<Rightarrow> Inr (addToUndoStack (CourtAction entry)
                     (currentGame_update (shots_update (\<lambda>xs. xs @ [entry])) b)))"
      using assms(1) False
      unfolding entry_def
      by (simp add: handleNewCourtAction_def Let_def seg case_map_sum_Pair
          cong: if_cong sum.case_cong)
    with assms(2) obtain b where b: "handleStatAction act (player_id p) a = Inr b"
      and a': "analytics (currentGame a') = analytics (currentGame b)"
      by (auto simp: analytics_stored split: sum.splits)
    show ?thesis
      using False handleStatAction_analytics [OF b] by (simp add: a')
  qed
qed

lemma quick_step_analytics:
  assumes "isAdmin a" and "getSelectedPlayer Quick a = Some p"
    and "stats (currentGame a) (player_id p) = Some s"
    and "\<not> includes_str stype ''foul''" and "\<not> includes_str stype ''timeout''"
  shows "totalShots (analytics (currentGame (recordQuickStat ui newId stype pts a)))
           = totalShots (analytics (currentGame a)) + (if stype = ''fg2'' \<or> stype = ''fg3'' then 1 else 0)
     \<and> madeShots (analytics (currentGame (recordQuickStat ui newId stype pts a)))
           = madeShots (analytics (currentGame a)) + (if stype = ''fg2'' \<or> stype = ''fg3'' then 1 else 0)
     \<and> totalActions (analytics (currentGame (recordQuickStat ui newId stype pts a)))
           = totalActions (analytics (currentGame a))
             + (if stype = ''ft'' \<or> stype = ''fg2'' \<or> stype = ''fg3'' then 2 else 1)"
proof -
  note defs = recordQuickStat_def addScore_def resetShotClock_def upd_stats_def upd_analytics_def
      upd_gameState_def addToUndoStack_def Let_def
  consider (ft) "stype = ''ft''" | (fg2) "stype = ''fg2''" | (fg3) "stype = ''fg3''"
    | (other) "stype \<noteq> ''ft''" "stype \<noteq> ''fg2''" "stype \<noteq> ''fg3''"
    by blast
  then show ?thesis
  proof cases
    case ft
    then show ?thesis using assms by (simp add: defs split: option.splits)
  next
    case fg2
    then show ?thesis using assms by (simp add: defs split: option.splits)
  next
    case fg3
    then show ?thesis using assms by (simp add: defs split: option.splits)
  next
    case other
    then show ?thesis using assms by (simp add: defs split: option.splits)
  qed
qed

section \<open>Properties of the undo ledger\<close>

text \<open>
  Claim C2. Recording the court action \<open>make2-layup\<close> on the example game and
  undoing it at once: the entry is gone from the ledger and the undo stack is empty
  again, but the score stays 2-0, player A keeps 2 points and one field goal, and the
  analytics keep one shot, where all of them were zero before the action.
\<close>

theorem court_action_then_undo:
  "map_sum id (\<lambda>a'. let b = undoLastAction a'
                     in (scores (gameState (currentGame b)), stats (currentGame b) ''home_7'',
                         analytics (currentGame b), shots (currentGame b), undoStack b))
     (handleNewCourtAction ''e1'' ''make2-layup'' (750, 300) exampleGame)
   = Inr (\<lparr> home = 2, away = 0 \<rparr>,
          Some (zeroStats\<lparr> points := 2, fieldGoals := \<lparr> made = 1, attempted = 1 \<rparr> \<rparr>),
          \<lparr> totalShots = 1, madeShots = 1, threePointAttempts = 0, threePointMakes = 0,
            totalActions = 1 \<rparr>,
          [], [])
   \<and> scores (gameState (currentGame exampleGame)) = \<lparr> home = 0, away = 0 \<rparr>
   \<and> stats (currentGame exampleGame) ''home_7'' = Some zeroStats
   \<and> analytics (currentGame exampleGame)
       = \<lparr> totalShots = 0, madeShots = 0, threePointAttempts = 0, threePointMakes = 0,
           totalActions = 0 \<rparr>"
  by (simp add: handleNewCourtAction_def undoLastAction_def getSelectedPlayer_def getPlayerById_def
      exampleGame_eq aggregator_defs Let_def zeroStats_def)

text \<open>
  The undo did run at this input: the session is an admin's and the court action
  left one entry on the undo stack; the score after the undo differs from the score
  before the action.
\<close>

theorem court_action_then_undo_witness:
  "isAdmin exampleGame
   \<and> (\<exists>a'. handleNewCourtAction ''e1'' ''make2-layup'' (750, 300) exampleGame = Inr a'
          \<and> isAdmin a' \<and> length (undoStack a') = 1
          \<and> undoStack (undoLastAction a') = []
          \<and> shots (currentGame (undoLastAction a')) = []
          \<and> scores (gameState (currentGame (undoLastAction a'))) = \<lparr> home = 2, away = 0 \<rparr>
          \<and> scores (gameState (currentGame (undoLastAction a')))
              \<noteq> scores (gameState (currentGame exampleGame)))"
proof -
  have admin: "isAdmin exampleGame"
    by (simp add: exampleGame_eq)
  obtain a' where run: "handleNewCourtAction ''e1'' ''make2-layup'' (750, 300) exampleGame = Inr a'"
    and pushed: "isAdmin a'" "length (undoStack a') = 1"
    by (simp add: handleNewCourtAction_def getSelectedPlayer_def getPlayerById_def exampleGame_eq
        aggregator_defs Let_def zeroStats_def)
  show ?thesis
    using court_action_then_undo admin pushed unfolding run
    by (simp add: Let_def)
qed

text \<open>
  The cause: \<open>handleNewCourtAction\<close> calls \<open>addToUndoStack\<close> after the action has
  been applied, so the snapshot of every court action is the state after it.
\<close>

lemma court_undo_entry_holds_state_after:
  assumes "getSelectedPlayer Court a \<noteq> None"
    and "handleNewCourtAction newId act loc a = Inr a'"
  shows "undoStack a' \<noteq> []
     \<and> gameStateBefore (last (undoStack a')) = gameState (currentGame a')
     \<and> statsBefore (last (undoStack a')) = stats (currentGame a')
     \<and> analyticsBefore (last (undoStack a')) = analytics (currentGame a')"
proof -
  have push: "undoStack (addToUndoStack u b) \<noteq> []
     \<and> gameStateBefore (last (undoStack (addToUndoStack u b))) = gameState (currentGame (addToUndoStack u b))
     \<and> statsBefore (last (undoStack (addToUndoStack u b))) = stats (currentGame (addToUndoStack u b))
     \<and> analyticsBefore (last (undoStack (addToUndoStack u b))) = analytics (currentGame (addToUndoStack u b))"
    for u b
  proof (cases "undoStack b")
    case Nil
    then show ?thesis by (simp add: addToUndoStack_def maxUndoStackSize_def Let_def)
  next
    case (Cons x xs)
    then show ?thesis by (simp add: addToUndoStack_def maxUndoStackSize_def Let_def)
  qed
  from assms obtain u b where "a' = addToUndoStack u b"
    by (auto simp: handleNewCourtAction_def Let_def split: sum.splits option.splits prod.splits)
  then show ?thesis using push by simp
qed

text \<open>
  Claim C9. \<open>undoLastAction\<close> without the admin capability, or with an empty undo
  stack, returns the session unchanged: game state, stats, analytics, ledger and undo
  stack.
\<close>

theorem undoLastAction_noop:
  "\<not> isAdmin a \<or> undoStack a = [] \<Longrightarrow> undoLastAction a = a"
  by (auto simp: undoLastAction_def)

theorem undoLastAction_noop_witness:
  "undoStack exampleGame = [] \<and> undoLastAction exampleGame = exampleGame
   \<and> \<not> isAdmin ((recordQuickStat \<lparr> swal = True, confirmed = True \<rparr> ''q1'' ''fg2'' 2 exampleGame)\<lparr>isAdmin := False\<rparr>)
   \<and> length (undoStack ((recordQuickStat \<lparr> swal = True, confirmed = True \<rparr> ''q1'' ''fg2'' 2 exampleGame)\<lparr>isAdmin := False\<rparr>)) = 1
   \<and> undoLastAction ((recordQuickStat \<lparr> swal = True, confirmed = True \<rparr> ''q1'' ''fg2'' 2 exampleGame)\<lparr>isAdmin := False\<rparr>)
       = (recordQuickStat \<lparr> swal = True, confirmed = True \<rparr> ''q1'' ''fg2'' 2 exampleGame)\<lparr>isAdmin := False\<rparr>"
proof -
  have empty: "undoStack exampleGame = []"
    by (simp add: exampleGame_eq)
  have pushed: "length (undoStack ((recordQuickStat \<lparr> swal = True, confirmed = True \<rparr> ''q1'' ''fg2'' 2 exampleGame)\<lparr>isAdmin := False\<rparr>)) = 1"
    by (simp add: recordQuickStat_def getSelectedPlayer_def getPlayerById_def getPlayerTeam_def
        exampleGame_eq aggregator_defs Let_def zeroStats_def)
  show ?thesis
    using undoLastAction_noop [of exampleGame]
      undoLastAction_noop [of "(recordQuickStat \<lparr> swal = True, confirmed = True \<rparr> ''q1'' ''fg2'' 2 exampleGame)\<lparr>isAdmin := False\<rparr>"]
      empty pushed
    by simp
qed

section \<open>Court actions without a statistic\<close>

text \<open>
  Claim C10. With a player selected, a court action code whose first segment
  contains neither \<open>make\<close> nor \<open>miss\<close> and which is not \<open>rebound\<close>, \<open>assist\<close> or
  \<open>block\<close> (such as \<open>foul\<close>) appends its entry to the ledger and pushes an undo
  entry for it, and leaves the stats of every player, the game state (scores and foul
  counts included) and the analytics as they were.
\<close>

theorem handleNewCourtAction_other_code_frame:
  assumes "getSelectedPlayer Court a = Some player"
    and "outcome = hd (split_on CHR ''-'' act)"
    and "\<not> includes_str outcome ''make''" and "\<not> includes_str outcome ''miss''"
    and "act \<noteq> ''rebound''" and "act \<noteq> ''assist''" and "act \<noteq> ''block''"
    and "entry = \<lparr> entry_id = newId, playerId = player_id player, playerNumber = number player,
           playerName = player_name player, entry_team = selectedCourtTeam a, action = act,
           location = loc, entry_period = period (gameState (currentGame a)),
           entry_type = act, shot = None \<rparr>"
    and "undo = \<lparr> undo_action = CourtAction entry, gameStateBefore = gameState (currentGame a),
           statsBefore = stats (currentGame a), analyticsBefore = analytics (currentGame a) \<rparr>"
  shows "\<exists>a'. handleNewCourtAction newId act loc a = Inr a'
     \<and> shots (currentGame a') = shots (currentGame a) @ [entry]
     \<and> undoStack a' = (if length (undoStack a) < 20 then undoStack a @ [undo]
                        else tl (undoStack a @ [undo]))
     \<and> last (undoStack a') = undo
     \<and> stats (currentGame a') = stats (currentGame a)
     \<and> scores (gameState (currentGame a')) = scores (gameState (currentGame a))
     \<and> fouls (gameState (currentGame a')) = fouls (gameState (currentGame a))
     \<and> gameState (currentGame a') = gameState (currentGame a)
     \<and> analytics (currentGame a') = analytics (currentGame a)"
proof -
  have seg: "(case split_on CHR ''-'' act of [] \<Rightarrow> [] | s # _ \<Rightarrow> s) = outcome"
    using assms(2) split_on_nonempty [of "CHR ''-''" act] by (cases "split_on CHR ''-'' act") simp_all
  have applied: "handleStatAction act (player_id player) a = Inr a"
    using assms(5-7) by (simp add: handleStatAction_def)
  have run: "handleNewCourtAction newId act loc a =
      Inr (addToUndoStack (CourtAction entry) (currentGame_update (shots_update (\<lambda>xs. xs @ [entry])) a))"
    using assms(1,3,4,8) by (simp add: handleNewCourtAction_def Let_def seg applied)
  have keep: "last (tl (undoStack a @ [undo])) = undo" if "\<not> length (undoStack a) < 20"
  proof -
    from that have "undoStack a \<noteq> []" by auto
    then have "tl (undoStack a @ [undo]) = tl (undoStack a) @ [undo]" by simp
    then show ?thesis by simp
  qed
  show ?thesis
    unfolding run using assms(9) keep
    by (auto simp: addToUndoStack_def maxUndoStackSize_def Let_def)
qed

theorem handleNewCourtAction_other_code_frame_witness:
  "getSelectedPlayer Court exampleGame
     = Some \<lparr> player_name = ''A'', number = 7, position = ''G'', player_id = ''home_7'' \<rparr>
   \<and> hd (split_on CHR ''-'' ''foul'') = ''foul''
   \<and> \<not> includes_str ''foul'' ''make'' \<and> \<not> includes_str ''foul'' ''miss''
   \<and> (\<exists>a'. handleNewCourtAction ''e1'' ''foul'' (750, 300) exampleGame = Inr a'
        \<and> shots (currentGame a') =
            [\<lparr> entry_id = ''e1'', playerId = ''home_7'', playerNumber = 7, playerName = ''A'',
               entry_team = Home, action = ''foul'', location = (750, 300), entry_period = 1,
               entry_type = ''foul'', shot = None \<rparr>]
        \<and> length (undoStack a') = 1
        \<and> stats (currentGame a') = stats (currentGame exampleGame)
        \<and> gameState (currentGame a') = gameState (currentGame exampleGame)
        \<and> analytics (currentGame a') = analytics (currentGame exampleGame))"
proof -
  have sel: "getSelectedPlayer Court exampleGame
     = Some \<lparr> player_name = ''A'', number = 7, position = ''G'', player_id = ''home_7'' \<rparr>"
    by (rule exampleGame_selected)
  have code: "hd (split_on CHR ''-'' ''foul'') = ''foul''"
    "\<not> includes_str ''foul'' ''make''" "\<not> includes_str ''foul'' ''miss''"
    "''foul'' \<noteq> ''rebound''" "''foul'' \<noteq> ''assist''" "''foul'' \<noteq> ''block''"
    by simp_all
  have start: "shots (currentGame exampleGame) = []" "undoStack exampleGame = []"
    "selectedCourtTeam exampleGame = Home" "period (gameState (currentGame exampleGame)) = 1"
    by (simp_all add: exampleGame_eq)
  show ?thesis
    using handleNewCourtAction_other_code_frame [OF sel code(1) [symmetric] code(2-6) refl refl,
        of "''e1''" "(750, 300)"] sel code(1-3) start
    by auto
qed

section \<open>Properties of the clocks\<close>


text \<open>
  Claim C6, as the code has it. \<open>toggleGameClock\<close> tests the admin capability and
  whether the status is \<open>live\<close>, nothing else: for an admin, any status other than
  \<open>live\<close> (ready and paused, and also setup and final) becomes \<open>live\<close> with the
  game-clock timer started, and the shot-clock timer when it is enabled; \<open>live\<close>
  becomes \<open>paused\<close> with both timers cleared; without the capability nothing
  changes.
\<close>

theorem toggleGameClock_resumes_unless_live:
  "(\<not> isAdmin a \<longrightarrow> toggleGameClock a = a)
   \<and> (isAdmin a \<and> status (currentGame a) \<noteq> Live \<longrightarrow>
        status (currentGame (toggleGameClock a)) = Live \<and> clockInterval (toggleGameClock a)
        \<and> (shotClockEnabled (settings (currentGame a)) \<longrightarrow> shotClockInterval (toggleGameClock a)))
   \<and> (isAdmin a \<and> status (currentGame a) = Live \<longrightarrow>
        status (currentGame (toggleGameClock a)) = Paused \<and> \<not> clockInterval (toggleGameClock a)
        \<and> \<not> shotClockInterval (toggleGameClock a))"
  by (simp add: toggleGameClock_def resumeGame_def pauseGame_def set_status_def clearIntervals_def Let_def)

theorem toggleGameClock_resumes_unless_live_witness:
  "isAdmin exampleGame \<and> status (currentGame exampleGame) = Ready
   \<and> status (currentGame (toggleGameClock exampleGame)) = Live
   \<and> clockInterval (toggleGameClock exampleGame) \<and> shotClockInterval (toggleGameClock exampleGame)
   \<and> status (currentGame (toggleGameClock (toggleGameClock exampleGame))) = Paused
   \<and> \<not> clockInterval (toggleGameClock (toggleGameClock exampleGame))
   \<and> status (currentGame (toggleGameClock (set_status Setup exampleGame))) = Live
   \<and> status (currentGame (toggleGameClock (set_status Final exampleGame))) = Live
   \<and> toggleGameClock (exampleGame\<lparr>isAdmin := False\<rparr>) = exampleGame\<lparr>isAdmin := False\<rparr>"
proof -
  have start: "isAdmin exampleGame" "status (currentGame exampleGame) = Ready"
    "shotClockEnabled (settings (currentGame exampleGame))"
    by (simp_all add: exampleGame_eq)
  have live: "isAdmin (toggleGameClock exampleGame)"
    by (simp add: toggleGameClock_def resumeGame_def set_status_def exampleGame_eq Let_def)
  have other: "isAdmin (set_status Setup exampleGame)" "status (currentGame (set_status Setup exampleGame)) = Setup"
    "isAdmin (set_status Final exampleGame)" "status (currentGame (set_status Final exampleGame)) = Final"
    by (simp_all add: set_status_def exampleGame_eq)
  show ?thesis
    using toggleGameClock_resumes_unless_live [of exampleGame]
      toggleGameClock_resumes_unless_live [of "toggleGameClock exampleGame"]
      toggleGameClock_resumes_unless_live [of "set_status Setup exampleGame"]
      toggleGameClock_resumes_unless_live [of "set_status Final exampleGame"]
      toggleGameClock_resumes_unless_live [of "exampleGame\<lparr>isAdmin := False\<rparr>"]
      start live other
    by simp
qed

text \<open>
  The claim as first stated fails: from \<open>final\<close> and from \<open>setup\<close> the operation
  sets the status to \<open>live\<close> and starts the timers.
\<close>

theorem toggleGameClock_counterexample:
  "isAdmin (endGame exampleGame) \<and> status (currentGame (endGame exampleGame)) = Final
   \<and> status (currentGame (toggleGameClock (endGame exampleGame))) = Live
   \<and> clockInterval (toggleGameClock (endGame exampleGame))
   \<and> shotClockInterval (toggleGameClock (endGame exampleGame))
   \<and> isAdmin createNewGame \<and> status (currentGame createNewGame) = Setup
   \<and> status (currentGame (toggleGameClock createNewGame)) = Live
   \<and> clockInterval (toggleGameClock createNewGame)"
  by (simp add: toggleGameClock_def resumeGame_def pauseGame_def endGame_def set_status_def
      clearIntervals_def exampleGame_eq createNewGame_def Let_def)

text \<open>
  Claim C5. \<open>handlePeriodEnd\<close>, with \<open>maxPeriods\<close> 4 for the quarters format and
  2 otherwise (halves): below \<open>maxPeriods\<close> the period is incremented, the game clock
  is set to the period duration (minutes, times 60) and the status is \<open>paused\<close>; at
  or beyond it with equal scores the period is incremented, the game clock is 300 and
  the status is \<open>paused\<close>; otherwise the status is \<open>final\<close>. Both timers are cleared
  and nothing else changes.
\<close>

theorem handlePeriodEnd_cases:
  assumes "maxPeriods = (if gameFormat (settings (currentGame a)) = ''quarters'' then 4 else 2)"
  shows "(period (gameState (currentGame a)) < maxPeriods \<longrightarrow>
           handlePeriodEnd a = a\<lparr> clockInterval := False, shotClockInterval := False,
             currentGame := (currentGame a)\<lparr> status := Paused,
               gameState := (gameState (currentGame a))\<lparr> period := period (gameState (currentGame a)) + 1,
                 gameTime := periodDuration (settings (currentGame a)) * 60 \<rparr> \<rparr> \<rparr>)
       \<and> (\<not> period (gameState (currentGame a)) < maxPeriods
            \<and> home (scores (gameState (currentGame a))) = away (scores (gameState (currentGame a))) \<longrightarrow>
           handlePeriodEnd a = a\<lparr> clockInterval := False, shotClockInterval := False,
             currentGame := (currentGame a)\<lparr> status := Paused,
               gameState := (gameState (currentGame a))\<lparr> period := period (gameState (currentGame a)) + 1,
                 gameTime := 300 \<rparr> \<rparr> \<rparr>)
       \<and> (\<not> period (gameState (currentGame a)) < maxPeriods
            \<and> home (scores (gameState (currentGame a))) \<noteq> away (scores (gameState (currentGame a))) \<longrightarrow>
           handlePeriodEnd a = a\<lparr> clockInterval := False, shotClockInterval := False,
             currentGame := (currentGame a)\<lparr> status := Final \<rparr> \<rparr>)"
  using assms
  by (simp add: handlePeriodEnd_def endGame_def set_status_def clearIntervals_def upd_gameState_def Let_def)

theorem handlePeriodEnd_cases_witness:
  "(let b = handlePeriodEnd (upd_gameState (period_update (\<lambda>_. 4)) (toggleGameClock exampleGame))
    in (period (gameState (currentGame b)), gameTime (gameState (currentGame b)), status (currentGame b),
        clockInterval b)) = (5, 300, Paused, False)
   \<and> (let b = handlePeriodEnd (toggleGameClock exampleGame)
    in (period (gameState (currentGame b)), gameTime (gameState (currentGame b)), status (currentGame b),
        clockInterval b)) = (2, 720, Paused, False)
   \<and> (let b = handlePeriodEnd (currentGame_update (settings_update (gameFormat_update (\<lambda>_. ''halves'')))
                (upd_gameState (period_update (\<lambda>_. 2))
                   (upd_gameState (scores_update (\<lambda>_. \<lparr> home = 2, away = 0 \<rparr>)) exampleGame)))
    in (period (gameState (currentGame b)), status (currentGame b))) = (2, Final)"
proof -
  let ?tied = "upd_gameState (period_update (\<lambda>_. 4)) (toggleGameClock exampleGame)"
  let ?first = "toggleGameClock exampleGame"
  let ?halves = "currentGame_update (settings_update (gameFormat_update (\<lambda>_. ''halves'')))
                (upd_gameState (period_update (\<lambda>_. 2))
                   (upd_gameState (scores_update (\<lambda>_. \<lparr> home = 2, away = 0 \<rparr>)) exampleGame))"
  have tied: "gameFormat (settings (currentGame ?tied)) = ''quarters''"
    "period (gameState (currentGame ?tied)) = 4"
    "home (scores (gameState (currentGame ?tied))) = away (scores (gameState (currentGame ?tied)))"
    by (simp_all add: upd_gameState_def toggleGameClock_def resumeGame_def set_status_def exampleGame_eq Let_def)
  have first: "gameFormat (settings (currentGame ?first)) = ''quarters''"
    "period (gameState (currentGame ?first)) = 1"
    "periodDuration (settings (currentGame ?first)) = 12"
    by (simp_all add: toggleGameClock_def resumeGame_def set_status_def exampleGame_eq Let_def)
  have halves: "gameFormat (settings (currentGame ?halves)) = ''halves''"
    "period (gameState (currentGame ?halves)) = 2"
    "home (scores (gameState (currentGame ?halves))) = 2"
    "away (scores (gameState (currentGame ?halves))) = 0"
    by (simp_all add: upd_gameState_def exampleGame_eq)
  have "handlePeriodEnd ?tied = ?tied\<lparr> clockInterval := False, shotClockInterval := False,
             currentGame := (currentGame ?tied)\<lparr> status := Paused,
               gameState := (gameState (currentGame ?tied))\<lparr> period := period (gameState (currentGame ?tied)) + 1,
                 gameTime := 300 \<rparr> \<rparr> \<rparr>"
    using handlePeriodEnd_cases [of 4 ?tied] tied by simp
  moreover have "handlePeriodEnd ?first = ?first\<lparr> clockInterval := False, shotClockInterval := False,
             currentGame := (currentGame ?first)\<lparr> status := Paused,
               gameState := (gameState (currentGame ?first))\<lparr> period := period (gameState (currentGame ?first)) + 1,
                 gameTime := periodDuration (settings (currentGame ?first)) * 60 \<rparr> \<rparr> \<rparr>"
    using handlePeriodEnd_cases [of 4 ?first] first by simp
  moreover have "handlePeriodEnd ?halves = ?halves\<lparr> clockInterval := False, shotClockInterval := False,
             currentGame := (currentGame ?halves)\<lparr> status := Final \<rparr> \<rparr>"
    using handlePeriodEnd_cases [of 2 ?halves] halves by simp
  ultimately show ?thesis
    using tied first halves by (simp add: Let_def)
qed










lemma fire_GameClock_off:
  "\<not> registered GameClock a \<Longrightarrow> fire GameClock a = (a, False)"
  by (simp add: fire_def)















end
